theory Spec2Isabelle
  imports Complex_Main "HOL-Library.Sublist"
begin

section \<open>The report model of unblob (\<^verbatim>\<open>unblob/report.py\<close>)\<close>

text \<open>
  The module defines the report classes of the extraction pipeline: attrs classes that
  are keyword-only and frozen, a converter that turns an exception into text, two class
  methods that read the file system (\<^verbatim>\<open>StatReport.from_path\<close>,
  \<^verbatim>\<open>HashReport.from_path\<close>) and two derived properties of
  \<^verbatim>\<open>EntropyReport\<close>.

  Python values are modelled by datatypes, raised exceptions by the left summand of a sum
  type, the file system by a map from paths to what the system calls observe there, and
  the read loop of the hashing by a recursive function with a termination proof.
\<close>

subsection \<open>Python values\<close>

text \<open>
  \<^verbatim>\<open>bytes\<close> is a list of 8-bit characters. \<^verbatim>\<open>str\<close> is modelled by \<open>string\<close>
  as well; nothing below depends on the length of a text.
\<close>

type_synonym bytes = "char list"

text \<open>\<^verbatim>\<open>class Severity(Enum)\<close>, lines 20-24.\<close>

datatype Severity = ERROR | WARNING

text \<open>\<^verbatim>\<open>pathlib.Path\<close>, a wrapper around the text of the path.\<close>

datatype path = Path string

text \<open>
  A Python \<^verbatim>\<open>float\<close>: the finite values (as reals), the two infinities and NaN.
  Comparisons follow IEEE 754 as Python's operators do: every comparison with NaN is
  false.
\<close>

datatype pyfloat = Finite real | PosInf | NegInf | NaN

fun py_lt :: "pyfloat \<Rightarrow> pyfloat \<Rightarrow> bool" where
  "py_lt NaN y = False"
| "py_lt x NaN = False"
| "py_lt x NegInf = False"
| "py_lt NegInf y = True"
| "py_lt PosInf y = False"
| "py_lt (Finite a) PosInf = True"
| "py_lt (Finite a) (Finite b) = (a < b)"

definition py_gt :: "pyfloat \<Rightarrow> pyfloat \<Rightarrow> bool" where
  "py_gt x y = py_lt y x"

fun py_le :: "pyfloat \<Rightarrow> pyfloat \<Rightarrow> bool" where
  "py_le NaN y = False"
| "py_le x NaN = False"
| "py_le NegInf y = True"
| "py_le x PosInf = True"
| "py_le x NegInf = False"
| "py_le PosInf y = False"
| "py_le (Finite a) (Finite b) = (a \<le> b)"

text \<open>
  An exception object, reduced to what \<^verbatim>\<open>traceback.format_exception\<close> reads of it:
  the class (\<^verbatim>\<open>__module__\<close>, and \<^verbatim>\<open>__qualname__\<close> split into the enclosing scopes
  and \<^verbatim>\<open>__name__\<close>), the text of \<^verbatim>\<open>str(e)\<close>, the formatted entries of
  \<^verbatim>\<open>e.__traceback__\<close> (empty when the exception was never raised) and the exception it
  is chained to, if any: \<open>True\<close> for \<^verbatim>\<open>__cause__\<close>, \<open>False\<close> for an unsuppressed
  \<^verbatim>\<open>__context__\<close>.
\<close>

datatype exc =
  Exc (cls_module: string) (cls_scope: string) (cls_name: string)
      (exc_str: string) (tb_entries: "string list") (chained: "(bool \<times> exc) option")

text \<open>
  The values a field or an argument can hold. \<open>PAttrs c fs\<close> is an instance of the
  attrs class \<open>c\<close> with its fields in declaration order; \<open>PSet\<close> lists a set in its
  iteration order; \<open>PBaseException\<close> is an instance of a class that derives from
  \<^verbatim>\<open>BaseException\<close> but not from \<^verbatim>\<open>Exception\<close> (\<^verbatim>\<open>KeyboardInterrupt\<close>,
  \<^verbatim>\<open>SystemExit\<close>), named by its class.
\<close>

datatype pyval =
    PNone
  | PBool bool
  | PInt int
  | PFloat pyfloat
  | PStr string
  | PBytes bytes
  | PPath path
  | PSeverity Severity
  | PException exc
  | PBaseException string
  | PTuple "pyval list"
  | PList "pyval list"
  | PSet "pyval list"
  | PDict "(pyval \<times> pyval) list"
  | PAttrs string "(string \<times> pyval) list"

text \<open>
  The exceptions the module raises or lets through, with their arguments.
  \<open>OSError\<close> carries the error number.
\<close>

datatype errno = ENOENT | EACCES | EINVAL | EIO | EISDIR | ELOOP

datatype error =
    ValueError "pyval list"
  | OSError errno
  | AttributeError
  | FrozenInstanceError
  | NotAnAttrsClassError

subsection \<open>Exception capture\<close>

text \<open>
  \<^verbatim>\<open>traceback.format_exception(type(e), e, e.__traceback__)\<close> of the standard library,
  after its documentation and \<^verbatim>\<open>TracebackException.format\<close>: the chained exception
  first, followed by the line that links the two; the header and the stack entries when
  there is a traceback; last the line \<^verbatim>\<open>format_exception_only\<close> gives, the qualified
  class name (with the module unless it is \<^verbatim>\<open>builtins\<close> or \<^verbatim>\<open>__main__\<close>) and the
  text of the exception when it is not empty. The lines that the library adds for a
  \<^verbatim>\<open>SyntaxError\<close>, for notes and for exception groups come before that last line
  and are left out.
\<close>

definition cause_message :: string where
  "cause_message =
     [CHR 0x0A] @ ''The above exception was the direct cause of the following exception:''
     @ [CHR 0x0A, CHR 0x0A]"

definition context_message :: string where
  "context_message =
     [CHR 0x0A] @ ''During handling of the above exception, another exception occurred:''
     @ [CHR 0x0A, CHR 0x0A]"

definition format_final_exc_line :: "string \<Rightarrow> string \<Rightarrow> string" where
  "format_final_exc_line etype valuestr =
     (if valuestr = [] then etype @ [CHR 0x0A]
      else etype @ '': '' @ valuestr @ [CHR 0x0A])"

definition format_exception_only :: "exc \<Rightarrow> string" where
  "format_exception_only e =
     (let stype = cls_scope e @ cls_name e;
          stype = (if cls_module e = ''__main__'' \<or> cls_module e = ''builtins''
                   then stype else cls_module e @ ''.'' @ stype)
      in format_final_exc_line stype (exc_str e))"

fun format_exception :: "exc \<Rightarrow> string list" where
  "format_exception (Exc m sc n s tb ch) =
     (case ch of
        None \<Rightarrow> []
      | Some (is_cause, e) \<Rightarrow>
          format_exception e @ [if is_cause then cause_message else context_message])
     @ (if tb = [] then [] else (''Traceback (most recent call last):'' @ [CHR 0x0A]) # tb)
     @ [format_exception_only (Exc m sc n s tb ch)]"

text \<open>
  \<^verbatim>\<open>_convert_exception_to_str\<close>, lines 47-53: text is returned as it is, an instance of
  \<^verbatim>\<open>Exception\<close> is formatted, anything else raises \<^verbatim>\<open>ValueError\<close> with the message
  and the object as arguments.
\<close>

fun convert_exception_to_str :: "pyval \<Rightarrow> error + string" where
  "convert_exception_to_str (PStr s) = Inr s"
| "convert_exception_to_str (PException e) = Inr (concat (format_exception e))"
| "convert_exception_to_str obj = Inl (ValueError [PStr ''Invalid exception object'', obj])"

subsection \<open>The report classes\<close>

text \<open>
  The three classes with methods of their own are records: \<^verbatim>\<open>StatReport\<close> (lines
  142-149), \<^verbatim>\<open>HashReport\<close> (170-174) and \<^verbatim>\<open>EntropyReport\<close> (202-206). The fields
  \<^verbatim>\<open>size\<close> and \<^verbatim>\<open>id\<close> are written \<open>size'\<close> and \<open>id'\<close>.
\<close>

record StatReport =
  path :: path
  size' :: int
  is_dir :: bool
  is_file :: bool
  is_link :: bool
  link_target :: "path option"

record HashReport =
  md5 :: string
  sha1 :: string
  sha256 :: string

record EntropyReport =
  percentages :: "pyfloat list"
  block_size :: int
  mean :: pyfloat

text \<open>
  Every class of the module, one constructor each, the fields in the order attrs gives
  them (inherited fields first, a redefined field at the place of its redefinition).
  \<^verbatim>\<open>List[Report]\<close> admits every class of the module, so the type is recursive. A
  \<^verbatim>\<open>Set[Path]\<close> is given by the list of its elements in iteration order.
\<close>

datatype report =
    Report
  | ErrorReport Severity
  | UnknownError Severity string
  | CalculateChunkExceptionReport Severity string int string
  | CalculateMultiFileExceptionReport Severity string path string
  | ExtractCommandFailedReport Severity string bytes bytes int
  | ExtractDirectoryExistsReport Severity path
  | ExtractorDependencyNotFoundReport Severity "string list"
  | ExtractorTimedOut Severity string pyfloat
  | MaliciousSymlinkRemoved Severity string string
  | MultiFileCollisionReport Severity "path list" string
  | OfStatReport StatReport
  | OfHashReport HashReport
  | FileMagicReport string string
  | OfEntropyReport EntropyReport
  | ChunkReport (id': string) (handler_name: string) (start_offset: int) (end_offset: int)
      (size': int) (is_encrypted: bool) (extraction_reports: "report list")
  | UnknownChunkReport string int int int "EntropyReport option"
  | MultiFileReport string string string "path list" "report list"
  | ExtractionProblem string string "string option"


subsection \<open>Construction\<close>

text \<open>
  The \<^verbatim>\<open>__init__\<close> that attrs generates takes every field by keyword, stores it as
  given, and validates nothing: no class of the module declares a validator. A field
  with a default may be left out (\<open>None\<close> below); a field with a converter is stored
  converted, and the converter's exception leaves the constructor. An argument whose
  name is taken by a field selector is primed.
\<close>

definition or_default :: "'a option \<Rightarrow> 'a \<Rightarrow> 'a" where
  "or_default arg d = (case arg of None \<Rightarrow> d | Some v \<Rightarrow> v)"

text \<open>Lines 56-63: \<^verbatim>\<open>severity\<close> defaults to \<^verbatim>\<open>ERROR\<close>, \<^verbatim>\<open>exception\<close> is converted.\<close>

definition UnknownError_init :: "Severity option \<Rightarrow> pyval \<Rightarrow> error + report" where
  "UnknownError_init severity exception =
     (case convert_exception_to_str exception of
        Inl err \<Rightarrow> Inl err
      | Inr text \<Rightarrow> Inr (UnknownError (or_default severity ERROR) text))"

text \<open>Lines 72-78 and 81-87: both inherit the two fields of \<^verbatim>\<open>UnknownError\<close>.\<close>

definition CalculateChunkExceptionReport_init ::
  "Severity option \<Rightarrow> pyval \<Rightarrow> int \<Rightarrow> string \<Rightarrow> error + report" where
  "CalculateChunkExceptionReport_init severity exception start_offset' handler =
     (case convert_exception_to_str exception of
        Inl err \<Rightarrow> Inl err
      | Inr text \<Rightarrow>
          Inr (CalculateChunkExceptionReport (or_default severity ERROR) text
                 start_offset' handler))"

definition CalculateMultiFileExceptionReport_init ::
  "Severity option \<Rightarrow> pyval \<Rightarrow> path \<Rightarrow> string \<Rightarrow> error + report" where
  "CalculateMultiFileExceptionReport_init severity exception path' handler =
     (case convert_exception_to_str exception of
        Inl err \<Rightarrow> Inl err
      | Inr text \<Rightarrow>
          Inr (CalculateMultiFileExceptionReport (or_default severity ERROR) text
                 path' handler))"

text \<open>Lines 90-98: \<^verbatim>\<open>severity: Severity = Severity.WARNING\<close>.\<close>

definition ExtractCommandFailedReport_init ::
  "Severity option \<Rightarrow> string \<Rightarrow> bytes \<Rightarrow> bytes \<Rightarrow> int \<Rightarrow> report" where
  "ExtractCommandFailedReport_init severity command stdout stderr exit_code =
     ExtractCommandFailedReport (or_default severity WARNING) command stdout stderr exit_code"

text \<open>Lines 101-104.\<close>

definition ExtractDirectoryExistsReport_init :: "Severity option \<Rightarrow> path \<Rightarrow> report" where
  "ExtractDirectoryExistsReport_init severity path' =
     ExtractDirectoryExistsReport (or_default severity ERROR) path'"

text \<open>Lines 107-112.\<close>

definition ExtractorDependencyNotFoundReport_init ::
  "Severity option \<Rightarrow> string list \<Rightarrow> report" where
  "ExtractorDependencyNotFoundReport_init severity dependencies =
     ExtractorDependencyNotFoundReport (or_default severity ERROR) dependencies"

text \<open>Lines 115-121.\<close>

definition ExtractorTimedOut_init :: "Severity option \<Rightarrow> string \<Rightarrow> pyfloat \<Rightarrow> report" where
  "ExtractorTimedOut_init severity cmd timeout =
     ExtractorTimedOut (or_default severity ERROR) cmd timeout"

text \<open>Lines 124-130: \<^verbatim>\<open>severity: Severity = Severity.WARNING\<close>.\<close>

definition MaliciousSymlinkRemoved_init :: "Severity option \<Rightarrow> string \<Rightarrow> string \<Rightarrow> report" where
  "MaliciousSymlinkRemoved_init severity link target =
     MaliciousSymlinkRemoved (or_default severity WARNING) link target"

text \<open>Lines 133-139.\<close>

definition MultiFileCollisionReport_init ::
  "Severity option \<Rightarrow> path list \<Rightarrow> string \<Rightarrow> report" where
  "MultiFileCollisionReport_init severity paths handler =
     MultiFileCollisionReport (or_default severity ERROR) paths handler"

text \<open>Lines 249-265: \<^verbatim>\<open>path: Optional[str] = None\<close>.\<close>

definition ExtractionProblem_init ::
  "string \<Rightarrow> string \<Rightarrow> string option option \<Rightarrow> report" where
  "ExtractionProblem_init problem resolution path' =
     ExtractionProblem problem resolution (or_default path' None)"

text \<open>
  The other classes have no default and no converter: their \<^verbatim>\<open>__init__\<close> is the
  constructor of the datatype (\<open>ChunkReport\<close>, \<open>UnknownChunkReport\<close>, ...), or the
  record itself under \<open>OfStatReport\<close>, \<open>OfHashReport\<close> and \<open>OfEntropyReport\<close>.
\<close>

text \<open>The \<^verbatim>\<open>severity\<close> attribute, of the classes that derive from \<^verbatim>\<open>ErrorReport\<close>.\<close>

fun severity :: "report \<Rightarrow> Severity option" where
  "severity (ErrorReport s) = Some s"
| "severity (UnknownError s e) = Some s"
| "severity (CalculateChunkExceptionReport s e off h) = Some s"
| "severity (CalculateMultiFileExceptionReport s e p h) = Some s"
| "severity (ExtractCommandFailedReport s c out err code) = Some s"
| "severity (ExtractDirectoryExistsReport s p) = Some s"
| "severity (ExtractorDependencyNotFoundReport s ds) = Some s"
| "severity (ExtractorTimedOut s c t) = Some s"
| "severity (MaliciousSymlinkRemoved s l t) = Some s"
| "severity (MultiFileCollisionReport s ps h) = Some s"
| "severity r = None"

subsection \<open>Reports as attrs instances\<close>

text \<open>
  What the attrs library sees of a report: the class of the instance and its fields, by
  name and in order.
\<close>

definition optional :: "('a \<Rightarrow> pyval) \<Rightarrow> 'a option \<Rightarrow> pyval" where
  "optional f x = (case x of None \<Rightarrow> PNone | Some v \<Rightarrow> f v)"

definition EntropyReport_instance :: "EntropyReport \<Rightarrow> pyval" where
  "EntropyReport_instance r =
     PAttrs ''EntropyReport''
       [(''percentages'', PList (map PFloat (percentages r))),
        (''block_size'', PInt (block_size r)),
        (''mean'', PFloat (mean r))]"

fun attrs_instance :: "report \<Rightarrow> pyval" where
  "attrs_instance Report = PAttrs ''Report'' []"
| "attrs_instance (ErrorReport s) = PAttrs ''ErrorReport'' [(''severity'', PSeverity s)]"
| "attrs_instance (UnknownError s e) =
     PAttrs ''UnknownError'' [(''severity'', PSeverity s), (''exception'', PStr e)]"
| "attrs_instance (CalculateChunkExceptionReport s e off h) =
     PAttrs ''CalculateChunkExceptionReport''
       [(''severity'', PSeverity s), (''exception'', PStr e),
        (''start_offset'', PInt off), (''handler'', PStr h)]"
| "attrs_instance (CalculateMultiFileExceptionReport s e p h) =
     PAttrs ''CalculateMultiFileExceptionReport''
       [(''severity'', PSeverity s), (''exception'', PStr e),
        (''path'', PPath p), (''handler'', PStr h)]"
| "attrs_instance (ExtractCommandFailedReport s c out err code) =
     PAttrs ''ExtractCommandFailedReport''
       [(''severity'', PSeverity s), (''command'', PStr c), (''stdout'', PBytes out),
        (''stderr'', PBytes err), (''exit_code'', PInt code)]"
| "attrs_instance (ExtractDirectoryExistsReport s p) =
     PAttrs ''ExtractDirectoryExistsReport'' [(''severity'', PSeverity s), (''path'', PPath p)]"
| "attrs_instance (ExtractorDependencyNotFoundReport s ds) =
     PAttrs ''ExtractorDependencyNotFoundReport''
       [(''severity'', PSeverity s), (''dependencies'', PList (map PStr ds))]"
| "attrs_instance (ExtractorTimedOut s c t) =
     PAttrs ''ExtractorTimedOut''
       [(''severity'', PSeverity s), (''cmd'', PStr c), (''timeout'', PFloat t)]"
| "attrs_instance (MaliciousSymlinkRemoved s l t) =
     PAttrs ''MaliciousSymlinkRemoved''
       [(''severity'', PSeverity s), (''link'', PStr l), (''target'', PStr t)]"
| "attrs_instance (MultiFileCollisionReport s ps h) =
     PAttrs ''MultiFileCollisionReport''
       [(''severity'', PSeverity s), (''paths'', PSet (map PPath ps)), (''handler'', PStr h)]"
| "attrs_instance (OfStatReport r) =
     PAttrs ''StatReport''
       [(''path'', PPath (path r)), (''size'', PInt (StatReport.size' r)),
        (''is_dir'', PBool (is_dir r)), (''is_file'', PBool (is_file r)),
        (''is_link'', PBool (is_link r)), (''link_target'', optional PPath (link_target r))]"
| "attrs_instance (OfHashReport r) =
     PAttrs ''HashReport''
       [(''md5'', PStr (md5 r)), (''sha1'', PStr (sha1 r)), (''sha256'', PStr (sha256 r))]"
| "attrs_instance (FileMagicReport m t) =
     PAttrs ''FileMagicReport'' [(''magic'', PStr m), (''mime_type'', PStr t)]"
| "attrs_instance (OfEntropyReport r) = EntropyReport_instance r"
| "attrs_instance (ChunkReport i h s e z enc rs) =
     PAttrs ''ChunkReport''
       [(''id'', PStr i), (''handler_name'', PStr h), (''start_offset'', PInt s),
        (''end_offset'', PInt e), (''size'', PInt z), (''is_encrypted'', PBool enc),
        (''extraction_reports'', PList (map attrs_instance rs))]"
| "attrs_instance (UnknownChunkReport i s e z ent) =
     PAttrs ''UnknownChunkReport''
       [(''id'', PStr i), (''start_offset'', PInt s), (''end_offset'', PInt e),
        (''size'', PInt z), (''entropy'', optional EntropyReport_instance ent)]"
| "attrs_instance (MultiFileReport i h n ps rs) =
     PAttrs ''MultiFileReport''
       [(''id'', PStr i), (''handler_name'', PStr h), (''name'', PStr n),
        (''paths'', PList (map PPath ps)),
        (''extraction_reports'', PList (map attrs_instance rs))]"
| "attrs_instance (ExtractionProblem p r pth) =
     PAttrs ''ExtractionProblem''
       [(''problem'', PStr p), (''resolution'', PStr r), (''path'', optional PStr pth)]"

text \<open>
  The arguments of the decorator of each class: \<^verbatim>\<open>@attr.define(kw_only=True,
  frozen=True)\<close> throughout, as (class, \<^verbatim>\<open>kw_only\<close>, \<^verbatim>\<open>frozen\<close>).
\<close>

definition attr_define :: "(string \<times> bool \<times> bool) list" where
  "attr_define =
     [(''Report'', True, True),
      (''ErrorReport'', True, True),
      (''UnknownError'', True, True),
      (''CalculateChunkExceptionReport'', True, True),
      (''CalculateMultiFileExceptionReport'', True, True),
      (''ExtractCommandFailedReport'', True, True),
      (''ExtractDirectoryExistsReport'', True, True),
      (''ExtractorDependencyNotFoundReport'', True, True),
      (''ExtractorTimedOut'', True, True),
      (''MaliciousSymlinkRemoved'', True, True),
      (''MultiFileCollisionReport'', True, True),
      (''StatReport'', True, True),
      (''HashReport'', True, True),
      (''FileMagicReport'', True, True),
      (''EntropyReport'', True, True),
      (''ChunkReport'', True, True),
      (''UnknownChunkReport'', True, True),
      (''MultiFileReport'', True, True),
      (''ExtractionProblem'', True, True)]"

definition frozen :: "string \<Rightarrow> bool" where
  "frozen c = (case map_of attr_define c of None \<Rightarrow> False | Some (kw_only, fr) \<Rightarrow> fr)"

text \<open>
  Attribute assignment and deletion on an instance, as attrs arranges them: a frozen
  class raises \<^verbatim>\<open>FrozenInstanceError\<close> whatever the name; a class that is not frozen
  (it has slots) stores the value of a field and raises \<^verbatim>\<open>AttributeError\<close> for any
  other name, as a value that is no instance of an attrs class does here.
\<close>

definition attrs_setattr :: "pyval \<Rightarrow> string \<Rightarrow> pyval \<Rightarrow> error + pyval" where
  "attrs_setattr inst name v =
     (case inst of
        PAttrs c fs \<Rightarrow>
          if frozen c then Inl FrozenInstanceError
          else if name \<in> fst ` set fs
          then Inr (PAttrs c (map (\<lambda>(k, x). if k = name then (k, v) else (k, x)) fs))
          else Inl AttributeError
      | other \<Rightarrow> Inl AttributeError)"

definition attrs_delattr :: "pyval \<Rightarrow> string \<Rightarrow> error + pyval" where
  "attrs_delattr inst name =
     (case inst of
        PAttrs c fs \<Rightarrow>
          if frozen c then Inl FrozenInstanceError
          else if name \<in> fst ` set fs
          then Inr (PAttrs c (filter (\<lambda>(k, x). k \<noteq> name) fs))
          else Inl AttributeError
      | other \<Rightarrow> Inl AttributeError)"

subsection \<open>Serialisation\<close>

text \<open>
  \<^verbatim>\<open>attr.asdict\<close> of the attrs library with its default arguments (\<^verbatim>\<open>recurse=True\<close>,
  no filter, \<^verbatim>\<open>retain_collection_types=False\<close>), after its documentation: an
  instance of an attrs class becomes a dict from the field names to the converted field
  values; a tuple, list or set becomes a list of the converted items (a tuple when it is
  the key of a dict); a dict is converted key by key and value by value; any other value
  is kept. The flag is the library's \<^verbatim>\<open>is_key\<close>.
\<close>

fun asdict_anything :: "bool \<Rightarrow> pyval \<Rightarrow> pyval" where
  "asdict_anything is_key (PAttrs c fs) =
     PDict (map (\<lambda>(n, v). (PStr n, asdict_anything False v)) fs)"
| "asdict_anything is_key (PTuple xs) =
     (if is_key then PTuple else PList) (map (asdict_anything False) xs)"
| "asdict_anything is_key (PList xs) =
     (if is_key then PTuple else PList) (map (asdict_anything False) xs)"
| "asdict_anything is_key (PSet xs) =
     (if is_key then PTuple else PList) (map (asdict_anything False) xs)"
| "asdict_anything is_key (PDict kvs) =
     PDict (map (\<lambda>(k, v). (asdict_anything True k, asdict_anything False v)) kvs)"
| "asdict_anything is_key v = v"

definition attr_asdict :: "pyval \<Rightarrow> error + pyval" where
  "attr_asdict inst =
     (case inst of
        PAttrs c fs \<Rightarrow> Inr (asdict_anything False (PAttrs c fs))
      | other \<Rightarrow> Inl NotAnAttrsClassError)"

text \<open>\<^verbatim>\<open>Report.asdict\<close>, lines 16-17.\<close>

definition asdict :: "report \<Rightarrow> error + pyval" where
  "asdict self = attr_asdict (attrs_instance self)"

text \<open>
  A value is expanded when no instance of an attrs class is left in it, however deep:
  it is built from dicts, lists, tuples and sets over values that are not containers.
\<close>

fun expanded :: "pyval \<Rightarrow> bool" where
  "expanded (PAttrs c fs) = False"
| "expanded (PTuple xs) = list_all expanded xs"
| "expanded (PList xs) = list_all expanded xs"
| "expanded (PSet xs) = list_all expanded xs"
| "expanded (PDict kvs) = list_all (\<lambda>(k, v). expanded k \<and> expanded v) kvs"
| "expanded v = True"

unbundle bit_operations_syntax

subsection \<open>The file system\<close>

text \<open>
  What the system calls observe at a path: the result of \<^verbatim>\<open>lstat\<close> (of the path
  itself, a symbolic link is not followed), what \<^verbatim>\<open>readlink\<close> gives when the path is
  a symbolic link (the target, or the error number of a failed read), and what opening
  the path for reading gives (the bytes of the file that the path resolves to, or the
  error number). A path that is not in the map does not exist. One map stands for the
  file system during one call.
\<close>

record stat_result =
  st_mode :: int
  st_size :: int

record inode =
  lstat_result :: stat_result
  link :: "errno + string"
  data :: "errno + bytes"

type_synonym filesystem = "string \<Rightarrow> inode option"

fun fspath :: "path \<Rightarrow> string" where
  "fspath (Path s) = s"

definition os_lstat :: "filesystem \<Rightarrow> path \<Rightarrow> error + stat_result" where
  "os_lstat fs p =
     (case fs (fspath p) of
        None \<Rightarrow> Inl (OSError ENOENT)
      | Some n \<Rightarrow> Inr (lstat_result n))"

text \<open>
  The module \<^verbatim>\<open>stat\<close>: \<^verbatim>\<open>S_IFMT(mode) = mode & 0o170000\<close>, and the file type
  constants \<^verbatim>\<open>S_IFDIR = 0o040000\<close>, \<^verbatim>\<open>S_IFREG = 0o100000\<close>, \<^verbatim>\<open>S_IFLNK = 0o120000\<close>.
\<close>

definition S_IFMT :: "int \<Rightarrow> int" where
  "S_IFMT mode = mode AND 61440"

definition S_IFDIR :: int where "S_IFDIR = 16384"
definition S_IFREG :: int where "S_IFREG = 32768"
definition S_IFLNK :: int where "S_IFLNK = 40960"

definition S_ISDIR :: "int \<Rightarrow> bool" where
  "S_ISDIR mode = (S_IFMT mode = S_IFDIR)"

definition S_ISREG :: "int \<Rightarrow> bool" where
  "S_ISREG mode = (S_IFMT mode = S_IFREG)"

definition S_ISLNK :: "int \<Rightarrow> bool" where
  "S_ISLNK mode = (S_IFMT mode = S_IFLNK)"

text \<open>
  \<^verbatim>\<open>os.readlink\<close>: \<^verbatim>\<open>OSError\<close> with \<^verbatim>\<open>EINVAL\<close> when the path is no symbolic link,
  with \<^verbatim>\<open>ENOENT\<close> when it does not exist.
\<close>

definition os_readlink :: "filesystem \<Rightarrow> path \<Rightarrow> error + string" where
  "os_readlink fs p =
     (case fs (fspath p) of
        None \<Rightarrow> Inl (OSError ENOENT)
      | Some n \<Rightarrow>
          if S_ISLNK (st_mode (lstat_result n))
          then (case link n of Inl e \<Rightarrow> Inl (OSError e) | Inr t \<Rightarrow> Inr t)
          else Inl (OSError EINVAL))"

text \<open>
  \<^verbatim>\<open>StatReport.from_path\<close>, lines 151-167. The \<^verbatim>\<open>try\<close> catches \<^verbatim>\<open>OSError\<close> only;
  an exception of \<^verbatim>\<open>lstat\<close> is not caught.
\<close>

definition StatReport_from_path :: "filesystem \<Rightarrow> path \<Rightarrow> error + StatReport" where
  "StatReport_from_path fs path' =
     (case os_lstat fs path' of
        Inl err \<Rightarrow> Inl err
      | Inr st \<Rightarrow>
          (let mode = st_mode st in
           case (case os_readlink fs path' of
                   Inr t \<Rightarrow> Inr (Some (Path t))
                 | Inl (OSError e) \<Rightarrow> Inr None
                 | Inl err \<Rightarrow> Inl err) of
             Inl err \<Rightarrow> Inl err
           | Inr link_target' \<Rightarrow>
               Inr \<lparr>path = path',
                    size' = st_size st,
                    is_dir = S_ISDIR mode,
                    is_file = S_ISREG mode,
                    is_link = S_ISLNK mode,
                    link_target = link_target'\<rparr>))"

subsection \<open>Hashing\<close>

text \<open>
  A file opened with \<^verbatim>\<open>path.open("rb")\<close>: the bytes and the position.
  \<^verbatim>\<open>f.read(n)\<close> returns the next \<open>n\<close> bytes, fewer at the end of the file and none
  after it; all the remaining bytes when \<open>n\<close> is negative.
\<close>

record pyfile =
  stream :: bytes
  pos :: nat

definition open_rb :: "filesystem \<Rightarrow> path \<Rightarrow> error + pyfile" where
  "open_rb fs p =
     (case fs (fspath p) of
        None \<Rightarrow> Inl (OSError ENOENT)
      | Some n \<Rightarrow>
          (case data n of
             Inl e \<Rightarrow> Inl (OSError e)
           | Inr bs \<Rightarrow> Inr \<lparr>stream = bs, pos = 0\<rparr>))"

definition file_read :: "pyfile \<Rightarrow> int \<Rightarrow> bytes \<times> pyfile" where
  "file_read f n =
     (let rest = drop (pos f) (stream f);
          chunk = (if n < 0 then rest else take (nat n) rest)
      in (chunk, f\<lparr>pos := pos f + length chunk\<rparr>))"

text \<open>
  A hash algorithm of \<^verbatim>\<open>hashlib\<close>, taken as a parameter: the state of a fresh hash
  object, \<^verbatim>\<open>update\<close> and \<^verbatim>\<open>hexdigest\<close>. The library's contract is that feeding
  chunks one after the other gives the digest of their concatenation; \<open>digest\<close> is the
  reference, the digest of a byte string computed in one go.
\<close>

record 's hash_alg =
  new :: 's
  update :: "'s \<Rightarrow> bytes \<Rightarrow> 's"
  hexdigest :: "'s \<Rightarrow> string"

definition implements :: "'s hash_alg \<Rightarrow> (bytes \<Rightarrow> string) \<Rightarrow> bool" where
  "implements h digest =
     (\<forall>chunks. hexdigest h (foldl (update h) (new h) chunks) = digest (concat chunks))"

text \<open>
  An algorithm to run the functions on an example: the digest of a byte string is the
  byte string itself.
\<close>

definition concat_alg :: "bytes hash_alg" where
  "concat_alg = \<lparr>new = [], update = (\<lambda>s chunk. s @ chunk), hexdigest = (\<lambda>s. s)\<rparr>"

text \<open>
  The loop of lines 184-187, \<^verbatim>\<open>while chunk := f.read(chunk_size)\<close>: it ends at the
  first empty chunk. The three hash objects are the state.
\<close>

function hash_loop ::
  "'a hash_alg \<Rightarrow> 'b hash_alg \<Rightarrow> 'c hash_alg \<Rightarrow> int \<Rightarrow> pyfile
     \<Rightarrow> 'a \<times> 'b \<times> 'c \<Rightarrow> 'a \<times> 'b \<times> 'c" where
  "hash_loop MD5 SHA1 SHA256 chunk_size f (md5', sha1', sha256') =
     (let (chunk, f') = file_read f chunk_size in
      if chunk = [] then (md5', sha1', sha256')
      else hash_loop MD5 SHA1 SHA256 chunk_size f'
             (update MD5 md5' chunk, update SHA1 sha1' chunk, update SHA256 sha256' chunk))"
  by pat_completeness auto
termination
  by (relation "measure (\<lambda>(MD5, SHA1, SHA256, chunk_size, f, st). length (stream f) - pos f)")
     (auto simp: file_read_def Let_def split: if_splits)

declare hash_loop.simps [simp del]

text \<open>
  \<^verbatim>\<open>HashReport.from_path\<close>, lines 176-193, with the chunk size as an argument, and
  with the chunk size of the source, \<^verbatim>\<open>1024 * 64\<close>.
\<close>

definition HashReport_from_path_chunked ::
  "int \<Rightarrow> 'a hash_alg \<Rightarrow> 'b hash_alg \<Rightarrow> 'c hash_alg \<Rightarrow> filesystem \<Rightarrow> path
     \<Rightarrow> error + HashReport" where
  "HashReport_from_path_chunked chunk_size MD5 SHA1 SHA256 fs path' =
     (case open_rb fs path' of
        Inl err \<Rightarrow> Inl err
      | Inr f \<Rightarrow>
          (case hash_loop MD5 SHA1 SHA256 chunk_size f (new MD5, new SHA1, new SHA256) of
             (md5', sha1', sha256') \<Rightarrow>
               Inr \<lparr>md5 = hexdigest MD5 md5',
                    sha1 = hexdigest SHA1 sha1',
                    sha256 = hexdigest SHA256 sha256'\<rparr>))"

definition HashReport_from_path ::
  "'a hash_alg \<Rightarrow> 'b hash_alg \<Rightarrow> 'c hash_alg \<Rightarrow> filesystem \<Rightarrow> path \<Rightarrow> error + HashReport" where
  "HashReport_from_path = HashReport_from_path_chunked (1024 * 64)"

subsection \<open>Entropy\<close>

text \<open>
  The builtins \<^verbatim>\<open>max\<close> and \<^verbatim>\<open>min\<close> on a list: the first item is the candidate, a
  later item replaces it when it compares greater (\<^verbatim>\<open>max\<close>) or less (\<^verbatim>\<open>min\<close>) than
  the candidate; \<^verbatim>\<open>ValueError\<close> on an empty list.
\<close>

fun min_max :: "(pyfloat \<Rightarrow> pyfloat \<Rightarrow> bool) \<Rightarrow> pyfloat list \<Rightarrow> pyfloat option \<Rightarrow> pyfloat option"
  where
  "min_max op [] maxitem = maxitem"
| "min_max op (item # rest) None = min_max op rest (Some item)"
| "min_max op (item # rest) (Some maxitem) =
     min_max op rest (Some (if op item maxitem then item else maxitem))"

definition py_max :: "pyfloat list \<Rightarrow> error + pyfloat" where
  "py_max xs =
     (case min_max py_gt xs None of
        None \<Rightarrow> Inl (ValueError [PStr ''max() arg is an empty sequence''])
      | Some m \<Rightarrow> Inr m)"

definition py_min :: "pyfloat list \<Rightarrow> error + pyfloat" where
  "py_min xs =
     (case min_max py_lt xs None of
        None \<Rightarrow> Inl (ValueError [PStr ''min() arg is an empty sequence''])
      | Some m \<Rightarrow> Inr m)"

text \<open>The properties \<^verbatim>\<open>highest\<close> and \<^verbatim>\<open>lowest\<close>, lines 208-214.\<close>

definition highest :: "EntropyReport \<Rightarrow> error + pyfloat" where
  "highest self = py_max (percentages self)"

definition lowest :: "EntropyReport \<Rightarrow> error + pyfloat" where
  "lowest self = py_min (percentages self)"

section \<open>Properties\<close>

subsection \<open>Exception capture\<close>

lemma format_exception_only_split:
  "\<exists>p s. format_exception_only e = p @ cls_name e @ s \<and> s \<noteq> []"
proof (cases "cls_module e = ''__main__'' \<or> cls_module e = ''builtins''")
  case True
  then have "format_exception_only e = cls_scope e @ cls_name e @
      (if exc_str e = [] then [CHR 0x0A] else '': '' @ exc_str e @ [CHR 0x0A])"
    by (simp add: format_exception_only_def format_final_exc_line_def)
  moreover have "(if exc_str e = [] then [CHR 0x0A] else '': '' @ exc_str e @ [CHR 0x0A]) \<noteq> []"
    by simp
  ultimately show ?thesis by blast
next
  case False
  then have "format_exception_only e = (cls_module e @ ''.'' @ cls_scope e) @ cls_name e @
      (if exc_str e = [] then [CHR 0x0A] else '': '' @ exc_str e @ [CHR 0x0A])"
    by (simp add: format_exception_only_def format_final_exc_line_def)
  moreover have "(if exc_str e = [] then [CHR 0x0A] else '': '' @ exc_str e @ [CHR 0x0A]) \<noteq> []"
    by simp
  ultimately show ?thesis by blast
qed

lemma format_exception_last:
  "\<exists>pre. format_exception e = pre @ [format_exception_only e]"
  by (cases e) simp



subsection \<open>Default severities\<close>

text \<open>
  Claim C6. Built without a \<^verbatim>\<open>severity\<close> argument, \<^verbatim>\<open>ExtractCommandFailedReport\<close> and
  \<^verbatim>\<open>MaliciousSymlinkRemoved\<close> carry \<^verbatim>\<open>WARNING\<close>; \<^verbatim>\<open>UnknownError\<close> and its two
  subclasses (whenever the converter of \<^verbatim>\<open>exception\<close> lets the construction through, as
  it does for a text), \<^verbatim>\<open>ExtractDirectoryExistsReport\<close>,
  \<^verbatim>\<open>ExtractorDependencyNotFoundReport\<close>, \<^verbatim>\<open>ExtractorTimedOut\<close> and
  \<^verbatim>\<open>MultiFileCollisionReport\<close> carry \<^verbatim>\<open>ERROR\<close>. The scenario of the specification
  (\<^verbatim>\<open>unpack foo.bin\<close>, exit code 2) gives exactly the record with those fields and
  \<^verbatim>\<open>WARNING\<close>.
\<close>

theorem error_default_severities:
  "severity (ExtractCommandFailedReport_init None command stdout stderr exit_code) = Some WARNING
   \<and> severity (MaliciousSymlinkRemoved_init None link' target) = Some WARNING
   \<and> (UnknownError_init None obj = Inr r1 \<longrightarrow> severity r1 = Some ERROR)
   \<and> (CalculateChunkExceptionReport_init None obj off h = Inr r2 \<longrightarrow> severity r2 = Some ERROR)
   \<and> (CalculateMultiFileExceptionReport_init None obj p h = Inr r3
        \<longrightarrow> severity r3 = Some ERROR)
   \<and> UnknownError_init None (PStr text) = Inr (UnknownError ERROR text)
   \<and> CalculateChunkExceptionReport_init None (PStr text) off h
       = Inr (CalculateChunkExceptionReport ERROR text off h)
   \<and> CalculateMultiFileExceptionReport_init None (PStr text) p h
       = Inr (CalculateMultiFileExceptionReport ERROR text p h)
   \<and> severity (ExtractDirectoryExistsReport_init None p) = Some ERROR
   \<and> severity (ExtractorDependencyNotFoundReport_init None deps) = Some ERROR
   \<and> severity (ExtractorTimedOut_init None cmd t) = Some ERROR
   \<and> severity (MultiFileCollisionReport_init None ps h) = Some ERROR
   \<and> ExtractCommandFailedReport_init None ''unpack foo.bin'' [] ''bad header'' 2
       = ExtractCommandFailedReport WARNING ''unpack foo.bin'' [] ''bad header'' 2"
  by (auto simp: ExtractCommandFailedReport_init_def MaliciousSymlinkRemoved_init_def
      UnknownError_init_def CalculateChunkExceptionReport_init_def
      CalculateMultiFileExceptionReport_init_def ExtractDirectoryExistsReport_init_def
      ExtractorDependencyNotFoundReport_init_def ExtractorTimedOut_init_def
      MultiFileCollisionReport_init_def or_default_def split: sum.splits)

theorem error_default_severities_witness:
  "UnknownError_init None (PStr ''boom'') = Inr (UnknownError ERROR ''boom'')
   \<and> severity (UnknownError ERROR ''boom'') = Some ERROR
   \<and> CalculateChunkExceptionReport_init None (PStr ''boom'') 16 ''zip''
       = Inr (CalculateChunkExceptionReport ERROR ''boom'' 16 ''zip'')
   \<and> severity (CalculateChunkExceptionReport ERROR ''boom'' 16 ''zip'') = Some ERROR
   \<and> CalculateMultiFileExceptionReport_init None (PStr ''boom'') (Path ''a.7z.001'') ''7z''
       = Inr (CalculateMultiFileExceptionReport ERROR ''boom'' (Path ''a.7z.001'') ''7z'')
   \<and> severity (CalculateMultiFileExceptionReport ERROR ''boom'' (Path ''a.7z.001'') ''7z'')
       = Some ERROR"
  using error_default_severities
    [of _ _ _ _ _ _ "PStr ''boom''" "UnknownError ERROR ''boom''" 16 "''zip''"
        "CalculateChunkExceptionReport ERROR ''boom'' 16 ''zip''" "Path ''a.7z.001''"
        "CalculateMultiFileExceptionReport ERROR ''boom'' (Path ''a.7z.001'') ''7z''"]
  by (simp add: UnknownError_init_def CalculateChunkExceptionReport_init_def
      CalculateMultiFileExceptionReport_init_def or_default_def)

subsection \<open>Immutability\<close>

lemma frozen_classes:
  "frozen ''Report''" "frozen ''ErrorReport''" "frozen ''UnknownError''"
  "frozen ''CalculateChunkExceptionReport''" "frozen ''CalculateMultiFileExceptionReport''"
  "frozen ''ExtractCommandFailedReport''" "frozen ''ExtractDirectoryExistsReport''"
  "frozen ''ExtractorDependencyNotFoundReport''" "frozen ''ExtractorTimedOut''"
  "frozen ''MaliciousSymlinkRemoved''" "frozen ''MultiFileCollisionReport''"
  "frozen ''StatReport''" "frozen ''HashReport''" "frozen ''FileMagicReport''"
  "frozen ''EntropyReport''" "frozen ''ChunkReport''" "frozen ''UnknownChunkReport''"
  "frozen ''MultiFileReport''" "frozen ''ExtractionProblem''"
  by (simp_all add: frozen_def attr_define_def)

lemma attrs_instance_frozen:
  "\<exists>c fs. attrs_instance r = PAttrs c fs \<and> frozen c"
  by (cases r) (simp_all add: frozen_classes EntropyReport_instance_def)


subsection \<open>Serialisation\<close>

lemma expanded_asdict_anything: "expanded (asdict_anything k v)"
  by (induction k v rule: asdict_anything.induct)
     (auto simp: list_all_iff)

lemma asdict_returns: "asdict r = Inr (asdict_anything False (attrs_instance r))"
  by (cases r) (simp_all add: asdict_def attr_asdict_def EntropyReport_instance_def)


subsection \<open>Chunk geometry\<close>

text \<open>
  Claim C9, as stated, fails: the constructor of \<^verbatim>\<open>ChunkReport\<close> checks nothing, and
  a chunk report with \<^verbatim>\<open>start_offset=5\<close>, \<^verbatim>\<open>end_offset=3\<close>, \<^verbatim>\<open>size=7\<close> exists.
\<close>

theorem ChunkReport_geometry_counterexample:
  "\<not> (start_offset (ChunkReport ''1'' ''zip'' 5 3 7 False [])
        \<le> end_offset (ChunkReport ''1'' ''zip'' 5 3 7 False [])
      \<and> report.size' (ChunkReport ''1'' ''zip'' 5 3 7 False [])
        = end_offset (ChunkReport ''1'' ''zip'' 5 3 7 False [])
          - start_offset (ChunkReport ''1'' ''zip'' 5 3 7 False []))"
  by simp

text \<open>
  Claim C9, amended. A \<^verbatim>\<open>ChunkReport\<close> holds \<^verbatim>\<open>start_offset\<close>, \<^verbatim>\<open>end_offset\<close> and
  \<^verbatim>\<open>size\<close> exactly as they were passed to its constructor, which checks no relation
  between them: \<^verbatim>\<open>end_offset \<ge> start_offset\<close> and \<^verbatim>\<open>size = end_offset - start_offset\<close>
  hold of the report exactly when they hold of the arguments.
\<close>

theorem ChunkReport_stores_arguments:
  "start_offset (ChunkReport i h s e z enc rs) = s
   \<and> end_offset (ChunkReport i h s e z enc rs) = e
   \<and> report.size' (ChunkReport i h s e z enc rs) = z
   \<and> ((start_offset (ChunkReport i h s e z enc rs) \<le> end_offset (ChunkReport i h s e z enc rs)
        \<and> report.size' (ChunkReport i h s e z enc rs)
          = end_offset (ChunkReport i h s e z enc rs) - start_offset (ChunkReport i h s e z enc rs))
       = (s \<le> e \<and> z = e - s))"
  by simp

subsection \<open>Entropy reports\<close>

text \<open>
  Claim C3, as stated, fails: the constructor of \<^verbatim>\<open>EntropyReport\<close> checks nothing, and
  an entropy report with no percentages and \<^verbatim>\<open>block_size=0\<close> exists.
\<close>

theorem EntropyReport_invariant_counterexample:
  "\<not> (percentages \<lparr>percentages = [], block_size = 0, mean = Finite 0\<rparr> \<noteq> []
      \<and> 0 < block_size \<lparr>percentages = [], block_size = 0, mean = Finite 0\<rparr>
      \<and> (\<forall>x \<in> set (percentages \<lparr>percentages = [], block_size = 0, mean = Finite 0\<rparr>).
            py_le (Finite 0) x \<and> py_le x (Finite 100)))"
  by simp

text \<open>
  Claim C3, amended. An \<^verbatim>\<open>EntropyReport\<close> holds \<^verbatim>\<open>percentages\<close> and \<^verbatim>\<open>block_size\<close>
  exactly as they were passed to its constructor, which validates nothing: the
  percentages are non-empty, the block size is positive and every percentage lies in
  [0, 100] exactly when the arguments were so.
\<close>

theorem EntropyReport_stores_arguments:
  "(percentages \<lparr>percentages = ps, block_size = b, mean = m\<rparr> \<noteq> []
      \<and> 0 < block_size \<lparr>percentages = ps, block_size = b, mean = m\<rparr>
      \<and> (\<forall>x \<in> set (percentages \<lparr>percentages = ps, block_size = b, mean = m\<rparr>).
            py_le (Finite 0) x \<and> py_le x (Finite 100)))
   = (ps \<noteq> [] \<and> 0 < b \<and> (\<forall>x \<in> set ps. py_le (Finite 0) x \<and> py_le x (Finite 100)))"
  by simp

theorem EntropyReport_stores_arguments_witness:
  "percentages \<lparr>percentages = [Finite 0, Finite 50, Finite 100], block_size = 1024,
                 mean = Finite 50\<rparr> \<noteq> []
   \<and> 0 < block_size \<lparr>percentages = [Finite 0, Finite 50, Finite 100], block_size = 1024,
                 mean = Finite 50\<rparr>
   \<and> list_all (\<lambda>x. py_le (Finite 0) x \<and> py_le x (Finite 100))
       (percentages \<lparr>percentages = [Finite 0, Finite 50, Finite 100], block_size = 1024,
                 mean = Finite 50\<rparr>)"
  using EntropyReport_stores_arguments
    [of "[Finite 0, Finite 50, Finite 100]" 1024 "Finite 50"]
  by simp

lemma py_gt_not_le: "x \<noteq> NaN \<Longrightarrow> y \<noteq> NaN \<Longrightarrow> py_gt x y = (\<not> py_le x y)"
  by (cases x; cases y) (auto simp: py_gt_def)

lemma py_lt_not_le: "x \<noteq> NaN \<Longrightarrow> y \<noteq> NaN \<Longrightarrow> py_lt x y = (\<not> py_le y x)"
  by (cases x; cases y) auto

lemma py_le_refl: "x \<noteq> NaN \<Longrightarrow> py_le x x"
  by (cases x) auto

lemma py_le_trans: "py_le x y \<Longrightarrow> py_le y z \<Longrightarrow> py_le x z"
  by (cases x; cases y; cases z) auto

lemma py_le_total: "x \<noteq> NaN \<Longrightarrow> y \<noteq> NaN \<Longrightarrow> py_le x y \<or> py_le y x"
  by (cases x; cases y) auto

lemma min_max_gt_greatest:
  "m \<noteq> NaN \<Longrightarrow> NaN \<notin> set xs \<Longrightarrow>
   \<exists>r. min_max py_gt xs (Some m) = Some r \<and> r \<in> set (m # xs)
     \<and> (\<forall>x \<in> set (m # xs). py_le x r)"
proof (induction xs arbitrary: m)
  case Nil
  then show ?case by (simp add: py_le_refl)
next
  case (Cons item rest)
  let ?m' = "if py_gt item m then item else m"
  have nn: "item \<noteq> NaN" "?m' \<noteq> NaN" "NaN \<notin> set rest"
    using Cons.prems by auto
  from Cons.IH [OF nn(2) nn(3)]
  obtain r where r: "min_max py_gt rest (Some ?m') = Some r" "r \<in> set (?m' # rest)"
    "\<forall>x \<in> set (?m' # rest). py_le x r"
    by blast
  have m': "py_le m ?m'" "py_le item ?m'"
    using py_gt_not_le [OF nn(1) Cons.prems(1)] py_le_total [OF nn(1) Cons.prems(1)]
      py_le_refl [OF nn(1)] py_le_refl [OF Cons.prems(1)]
    by auto
  have "py_le ?m' r" using r(3) by simp
  then have "py_le m r" "py_le item r"
    using m' py_le_trans by blast+
  moreover have "r \<in> set (m # item # rest)" using r(2) by (auto split: if_splits)
  ultimately show ?case using r by auto
qed

lemma min_max_lt_least:
  "m \<noteq> NaN \<Longrightarrow> NaN \<notin> set xs \<Longrightarrow>
   \<exists>r. min_max py_lt xs (Some m) = Some r \<and> r \<in> set (m # xs)
     \<and> (\<forall>x \<in> set (m # xs). py_le r x)"
proof (induction xs arbitrary: m)
  case Nil
  then show ?case by (simp add: py_le_refl)
next
  case (Cons item rest)
  let ?m' = "if py_lt item m then item else m"
  have nn: "item \<noteq> NaN" "?m' \<noteq> NaN" "NaN \<notin> set rest"
    using Cons.prems by auto
  from Cons.IH [OF nn(2) nn(3)]
  obtain r where r: "min_max py_lt rest (Some ?m') = Some r" "r \<in> set (?m' # rest)"
    "\<forall>x \<in> set (?m' # rest). py_le r x"
    by blast
  have m': "py_le ?m' m" "py_le ?m' item"
    using py_lt_not_le [OF nn(1) Cons.prems(1)] py_le_total [OF nn(1) Cons.prems(1)]
      py_le_refl [OF nn(1)] py_le_refl [OF Cons.prems(1)]
    by auto
  have "py_le r ?m'" using r(3) by simp
  then have "py_le r m" "py_le r item"
    using m' py_le_trans by blast+
  moreover have "r \<in> set (m # item # rest)" using r(2) by (auto split: if_splits)
  ultimately show ?case using r by auto
qed

text \<open>
  Claim C4, as stated, fails: on the non-empty percentages \<^verbatim>\<open>[nan, 1.0]\<close> both
  \<^verbatim>\<open>highest\<close> and \<^verbatim>\<open>lowest\<close> are NaN, the first item, since no item compares greater
  or less than NaN; and NaN is neither above nor below the entry 1.0.
\<close>

theorem highest_lowest_counterexample:
  "percentages \<lparr>percentages = [NaN, Finite 1], block_size = 1, mean = NaN\<rparr> \<noteq> []
   \<and> highest \<lparr>percentages = [NaN, Finite 1], block_size = 1, mean = NaN\<rparr> = Inr NaN
   \<and> lowest \<lparr>percentages = [NaN, Finite 1], block_size = 1, mean = NaN\<rparr> = Inr NaN
   \<and> Finite 1 \<in> set (percentages \<lparr>percentages = [NaN, Finite 1], block_size = 1, mean = NaN\<rparr>)
   \<and> \<not> py_le (Finite 1) NaN \<and> \<not> py_le NaN (Finite 1)"
  by (simp add: highest_def lowest_def py_max_def py_min_def py_gt_def)

text \<open>
  Claim C4, amended. For every \<^verbatim>\<open>EntropyReport\<close> whose percentages are non-empty and
  hold no NaN, \<^verbatim>\<open>highest\<close> returns the maximum of the percentages (an entry that every
  entry is below or equal to) and \<^verbatim>\<open>lowest\<close> the minimum.
\<close>

theorem highest_lowest_are_max_min:
  assumes "percentages r \<noteq> []" and "NaN \<notin> set (percentages r)"
  shows "\<exists>hi lo. highest r = Inr hi \<and> hi \<in> set (percentages r)
      \<and> (\<forall>x \<in> set (percentages r). py_le x hi)
      \<and> lowest r = Inr lo \<and> lo \<in> set (percentages r)
      \<and> (\<forall>x \<in> set (percentages r). py_le lo x)"
proof -
  obtain m xs where ps: "percentages r = m # xs"
    using assms(1) by (cases "percentages r") auto
  then have nn: "m \<noteq> NaN" "NaN \<notin> set xs"
    using assms(2) by auto
  obtain hi where hi: "min_max py_gt xs (Some m) = Some hi" "hi \<in> set (m # xs)"
    "\<forall>x \<in> set (m # xs). py_le x hi"
    using min_max_gt_greatest [OF nn] by blast
  obtain lo where lo: "min_max py_lt xs (Some m) = Some lo" "lo \<in> set (m # xs)"
    "\<forall>x \<in> set (m # xs). py_le lo x"
    using min_max_lt_least [OF nn] by blast
  have "highest r = Inr hi" "lowest r = Inr lo"
    using hi(1) lo(1) by (simp_all add: highest_def lowest_def py_max_def py_min_def ps)
  with hi lo ps show ?thesis by auto
qed

theorem highest_lowest_are_max_min_witness:
  "highest \<lparr>percentages = [Finite 12, Finite 99, Finite 50], block_size = 1024, mean = Finite 53\<rparr>
     = Inr (Finite 99)
   \<and> lowest \<lparr>percentages = [Finite 12, Finite 99, Finite 50], block_size = 1024, mean = Finite 53\<rparr>
     = Inr (Finite 12)
   \<and> NaN \<notin> set [Finite 12, Finite 99, Finite 50]"
  using highest_lowest_are_max_min
    [of "\<lparr>percentages = [Finite 12, Finite 99, Finite 50], block_size = 1024, mean = Finite 53\<rparr>"]
  by (simp add: highest_def lowest_def py_max_def py_min_def py_gt_def)

subsection \<open>File system snapshot\<close>

lemma os_readlink_raises_OSError:
  "os_readlink fs p = Inl err \<Longrightarrow> \<exists>e. err = OSError e"
  by (auto simp: os_readlink_def split: option.splits if_splits sum.splits)

lemma StatReport_from_path_existing:
  assumes "fs (fspath p) = Some n"
  shows "StatReport_from_path fs p =
     Inr \<lparr>path = p,
          size' = st_size (lstat_result n),
          is_dir = S_ISDIR (st_mode (lstat_result n)),
          is_file = S_ISREG (st_mode (lstat_result n)),
          is_link = S_ISLNK (st_mode (lstat_result n)),
          link_target = (case os_readlink fs p of Inl err \<Rightarrow> None | Inr t \<Rightarrow> Some (Path t))\<rparr>"
proof (cases "os_readlink fs p")
  case (Inl err)
  then obtain e where "err = OSError e" using os_readlink_raises_OSError by blast
  with Inl assms show ?thesis
    by (simp add: StatReport_from_path_def os_lstat_def Let_def)
next
  case (Inr t)
  with assms show ?thesis
    by (simp add: StatReport_from_path_def os_lstat_def Let_def)
qed

lemma file_types_exclusive:
  "\<not> (S_ISDIR m \<and> S_ISREG m)" "\<not> (S_ISDIR m \<and> S_ISLNK m)" "\<not> (S_ISREG m \<and> S_ISLNK m)"
  by (auto simp: S_ISDIR_def S_ISREG_def S_ISLNK_def S_IFDIR_def S_IFREG_def S_IFLNK_def)

text \<open>
  Claim C5. For every path that exists (\<^verbatim>\<open>lstat\<close> finds it), \<^verbatim>\<open>StatReport.from_path\<close>
  returns a report: the size and the three flags are those of the path's own
  \<^verbatim>\<open>lstat\<close> result, no link is followed; for a regular file \<^verbatim>\<open>is_file\<close> is true,
  \<^verbatim>\<open>is_dir\<close> false, \<^verbatim>\<open>size\<close> the size of the file and \<^verbatim>\<open>link_target\<close> \<^verbatim>\<open>None\<close>;
  whenever the read of the link target fails, as it does for every path that is no
  symbolic link, \<^verbatim>\<open>link_target\<close> is \<^verbatim>\<open>None\<close> and no exception leaves the method.
\<close>

theorem StatReport_from_path_succeeds:
  assumes "fs (fspath p) = Some n"
  shows "\<exists>r. StatReport_from_path fs p = Inr r
     \<and> StatReport.size' r = st_size (lstat_result n)
     \<and> is_dir r = S_ISDIR (st_mode (lstat_result n))
     \<and> is_file r = S_ISREG (st_mode (lstat_result n))
     \<and> is_link r = S_ISLNK (st_mode (lstat_result n))
     \<and> (S_ISREG (st_mode (lstat_result n))
          \<longrightarrow> is_file r \<and> \<not> is_dir r \<and> link_target r = None)
     \<and> (\<forall>err. os_readlink fs p = Inl err \<longrightarrow> link_target r = None)
     \<and> (\<not> S_ISLNK (st_mode (lstat_result n)) \<longrightarrow> link_target r = None)"
proof -
  let ?m = "st_mode (lstat_result n)"
  have nl: "\<not> S_ISLNK ?m \<Longrightarrow> os_readlink fs p = Inl (OSError EINVAL)"
    using assms by (simp add: os_readlink_def)
  have reg: "S_ISREG ?m \<Longrightarrow> \<not> S_ISLNK ?m" "S_ISREG ?m \<Longrightarrow> \<not> S_ISDIR ?m"
    using file_types_exclusive by blast+
  show ?thesis
    unfolding StatReport_from_path_existing [of fs p n, OF assms]
    using nl reg by (auto split: sum.splits)
qed

theorem StatReport_from_path_succeeds_witness:
  "StatReport_from_path
     ((\<lambda>p. None)(''foo.bin'' := Some \<lparr>lstat_result = \<lparr>st_mode = 33188, st_size = 4\<rparr>,
                          link = Inl EINVAL, data = Inr ''root''\<rparr>)) (Path ''foo.bin'')
   = Inr \<lparr>path = Path ''foo.bin'', size' = 4, is_dir = False, is_file = True,
          is_link = False, link_target = None\<rparr>"
  using StatReport_from_path_succeeds
    [of "(\<lambda>p. None)(''foo.bin'' := Some \<lparr>lstat_result = \<lparr>st_mode = 33188, st_size = 4\<rparr>,
                          link = Inl EINVAL, data = Inr ''root''\<rparr>)" "Path ''foo.bin''"
        "\<lparr>lstat_result = \<lparr>st_mode = 33188, st_size = 4\<rparr>,
                          link = Inl EINVAL, data = Inr ''root''\<rparr>"]
  by (simp add: StatReport_from_path_def os_lstat_def os_readlink_def
      S_ISREG_def S_ISLNK_def S_ISDIR_def S_IFMT_def S_IFREG_def S_IFLNK_def S_IFDIR_def)

text \<open>
  Claim C10. For every path that exists, at most one of \<^verbatim>\<open>is_dir\<close>, \<^verbatim>\<open>is_file\<close> and
  \<^verbatim>\<open>is_link\<close> is true in the report of \<^verbatim>\<open>StatReport.from_path\<close>: the three come from
  the one file type of the mode that \<^verbatim>\<open>lstat\<close> gave. A symbolic link is reported with
  \<^verbatim>\<open>is_link\<close> true and \<^verbatim>\<open>is_file\<close> false, whatever its target is, a regular file
  included.
\<close>

theorem StatReport_types_exclusive:
  assumes "fs (fspath p) = Some n"
  shows "\<exists>r. StatReport_from_path fs p = Inr r
     \<and> \<not> (is_dir r \<and> is_file r) \<and> \<not> (is_dir r \<and> is_link r) \<and> \<not> (is_file r \<and> is_link r)
     \<and> (S_ISLNK (st_mode (lstat_result n)) \<longrightarrow> is_link r \<and> \<not> is_file r \<and> \<not> is_dir r)"
  unfolding StatReport_from_path_existing [of fs p n, OF assms]
  using file_types_exclusive [of "st_mode (lstat_result n)"] by auto

theorem StatReport_types_exclusive_witness:
  "StatReport_from_path
     ((\<lambda>p. None)
      (''out/link'' := Some \<lparr>lstat_result = \<lparr>st_mode = 41471, st_size = 7\<rparr>,
                          link = Inr ''foo.bin'', data = Inr ''root''\<rparr>,
      ''foo.bin'' := Some \<lparr>lstat_result = \<lparr>st_mode = 33188, st_size = 4\<rparr>,
                          link = Inl EINVAL, data = Inr ''root''\<rparr>)) (Path ''out/link'')
   = Inr \<lparr>path = Path ''out/link'', size' = 7, is_dir = False, is_file = False,
          is_link = True, link_target = Some (Path ''foo.bin'')\<rparr>"
  using StatReport_types_exclusive
    [of "(\<lambda>p. None)
      (''out/link'' := Some \<lparr>lstat_result = \<lparr>st_mode = 41471, st_size = 7\<rparr>,
                          link = Inr ''foo.bin'', data = Inr ''root''\<rparr>,
      ''foo.bin'' := Some \<lparr>lstat_result = \<lparr>st_mode = 33188, st_size = 4\<rparr>,
                          link = Inl EINVAL, data = Inr ''root''\<rparr>)" "Path ''out/link''"
        "\<lparr>lstat_result = \<lparr>st_mode = 41471, st_size = 7\<rparr>,
                          link = Inr ''foo.bin'', data = Inr ''root''\<rparr>"]
  by (simp add: StatReport_from_path_def os_lstat_def os_readlink_def
      S_ISREG_def S_ISLNK_def S_ISDIR_def S_IFMT_def S_IFREG_def S_IFLNK_def S_IFDIR_def)

subsection \<open>Hashing\<close>

lemma hash_loop_chunks:
  "chunk_size \<noteq> 0 \<Longrightarrow>
   \<exists>chunks. concat chunks = drop (pos f) (stream f)
     \<and> hash_loop A B C chunk_size f (a, b, c)
       = (foldl (update A) a chunks, foldl (update B) b chunks, foldl (update C) c chunks)"
proof (induction A B C chunk_size f "(a, b, c)" arbitrary: a b c rule: hash_loop.induct)
  case (1 A B C chunk_size f a b c)
  obtain chunk f' where r: "file_read f chunk_size = (chunk, f')"
    by (cases "file_read f chunk_size")
  have chunk: "chunk = (if chunk_size < 0 then drop (pos f) (stream f)
                        else take (nat chunk_size) (drop (pos f) (stream f)))"
    and f': "stream f' = stream f" "pos f' = pos f + length chunk"
    using r by (auto simp: file_read_def Let_def)
  show ?case
  proof (cases "chunk = []")
    case True
    with chunk "1.prems" have "drop (pos f) (stream f) = []"
      by (auto split: if_splits)
    moreover have "hash_loop A B C chunk_size f (a, b, c) = (a, b, c)"
      using r True by (simp add: hash_loop.simps [of A B C chunk_size f])
    ultimately have "concat [] = drop (pos f) (stream f)
      \<and> hash_loop A B C chunk_size f (a, b, c)
        = (foldl (update A) a [], foldl (update B) b [], foldl (update C) c [])"
      by simp
    then show ?thesis by blast
  next
    case False
    from "1.hyps" [OF refl r [symmetric] False "1.prems"]
    obtain chunks where c: "concat chunks = drop (pos f') (stream f')"
      and h: "hash_loop A B C chunk_size f' (update A a chunk, update B b chunk, update C c chunk)
        = (foldl (update A) (update A a chunk) chunks,
           foldl (update B) (update B b chunk) chunks,
           foldl (update C) (update C c chunk) chunks)"
      by blast
    have tk: "take k xs @ drop (length (take k xs)) xs = xs" for k and xs :: bytes
      by (cases "k \<le> length xs") (simp_all add: min_def)
    have "drop (pos f + length chunk) (stream f) = drop (length chunk) (drop (pos f) (stream f))"
      by (simp add: add.commute)
    then have "chunk @ drop (pos f + length chunk) (stream f) = drop (pos f) (stream f)"
      using chunk tk [of "nat chunk_size" "drop (pos f) (stream f)"]
      by (simp split: if_splits)
    then have "concat (chunk # chunks) = drop (pos f) (stream f)"
      using c f' by simp
    moreover have "hash_loop A B C chunk_size f (a, b, c)
       = (foldl (update A) a (chunk # chunks), foldl (update B) b (chunk # chunks),
          foldl (update C) c (chunk # chunks))"
      using r False h by (simp add: hash_loop.simps [of A B C chunk_size f])
    ultimately show ?thesis by blast
  qed
qed

lemma HashReport_from_path_chunked_digest:
  assumes "implements MD5 md5_digest" "implements SHA1 sha1_digest"
    "implements SHA256 sha256_digest"
    and "fs (fspath p) = Some n" "data n = Inr bs" "chunk_size \<noteq> 0"
  shows "HashReport_from_path_chunked chunk_size MD5 SHA1 SHA256 fs p
     = Inr \<lparr>md5 = md5_digest bs, sha1 = sha1_digest bs, sha256 = sha256_digest bs\<rparr>"
proof -
  let ?f = "\<lparr>stream = bs, pos = 0\<rparr>"
  have o: "open_rb fs p = Inr ?f"
    using assms by (simp add: open_rb_def)
  obtain chunks where c: "concat chunks = bs"
    and h: "hash_loop MD5 SHA1 SHA256 chunk_size ?f (new MD5, new SHA1, new SHA256)
      = (foldl (update MD5) (new MD5) chunks, foldl (update SHA1) (new SHA1) chunks,
         foldl (update SHA256) (new SHA256) chunks)"
    using hash_loop_chunks [OF assms(6), of ?f MD5 SHA1 SHA256 "new MD5" "new SHA1" "new SHA256"]
    by auto
  have "hexdigest MD5 (foldl (update MD5) (new MD5) chunks) = md5_digest bs"
    "hexdigest SHA1 (foldl (update SHA1) (new SHA1) chunks) = sha1_digest bs"
    "hexdigest SHA256 (foldl (update SHA256) (new SHA256) chunks) = sha256_digest bs"
    using assms(1-3) c by (auto simp: implements_def)
  then show ?thesis
    by (simp add: HashReport_from_path_chunked_def o h)
qed

text \<open>
  Claim C2. For every file that can be opened for reading, and hash algorithms that meet
  the contract of \<^verbatim>\<open>hashlib\<close>, \<^verbatim>\<open>HashReport.from_path\<close> returns as \<^verbatim>\<open>md5\<close>,
  \<^verbatim>\<open>sha1\<close> and \<^verbatim>\<open>sha256\<close> the reference digests of the whole content of the file.
  The report depends on the bytes only: reading with any other chunk size (any but 0,
  which reads nothing) gives the same report.
\<close>

theorem HashReport_from_path_digests:
  assumes "implements MD5 md5_digest" "implements SHA1 sha1_digest"
    "implements SHA256 sha256_digest"
    and "fs (fspath p) = Some n" "data n = Inr bs"
  shows "HashReport_from_path MD5 SHA1 SHA256 fs p
       = Inr \<lparr>md5 = md5_digest bs, sha1 = sha1_digest bs, sha256 = sha256_digest bs\<rparr>
     \<and> (\<forall>chunk_size. chunk_size \<noteq> 0 \<longrightarrow>
          HashReport_from_path_chunked chunk_size MD5 SHA1 SHA256 fs p
          = HashReport_from_path MD5 SHA1 SHA256 fs p)"
proof -
  have "HashReport_from_path_chunked chunk_size MD5 SHA1 SHA256 fs p
      = Inr \<lparr>md5 = md5_digest bs, sha1 = sha1_digest bs, sha256 = sha256_digest bs\<rparr>"
    if "chunk_size \<noteq> 0" for chunk_size
    by (rule HashReport_from_path_chunked_digest
          [of MD5 md5_digest SHA1 sha1_digest SHA256 sha256_digest fs p n bs chunk_size])
       (use assms that in simp_all)
  then show ?thesis
    by (simp add: HashReport_from_path_def)
qed

lemma foldl_append_concat: "foldl (\<lambda>s chunk. s @ chunk) a chunks = a @ concat chunks"
  by (induction chunks arbitrary: a) auto

lemma concat_alg_implements: "implements concat_alg (\<lambda>bs. bs)"
  by (simp add: implements_def concat_alg_def foldl_append_concat)

theorem HashReport_from_path_digests_witness:
  "HashReport_from_path concat_alg concat_alg concat_alg
     ((\<lambda>p. None)(''foo.bin'' := Some \<lparr>lstat_result = \<lparr>st_mode = 33188, st_size = 5\<rparr>,
                          link = Inl EINVAL, data = Inr ''hello''\<rparr>)) (Path ''foo.bin'')
     = Inr \<lparr>md5 = ''hello'', sha1 = ''hello'', sha256 = ''hello''\<rparr>
   \<and> HashReport_from_path_chunked 2 concat_alg concat_alg concat_alg
     ((\<lambda>p. None)(''foo.bin'' := Some \<lparr>lstat_result = \<lparr>st_mode = 33188, st_size = 5\<rparr>,
                          link = Inl EINVAL, data = Inr ''hello''\<rparr>)) (Path ''foo.bin'')
     = Inr \<lparr>md5 = ''hello'', sha1 = ''hello'', sha256 = ''hello''\<rparr>"
  using HashReport_from_path_digests
    [OF concat_alg_implements concat_alg_implements concat_alg_implements,
     of "(\<lambda>p. None)(''foo.bin'' := Some \<lparr>lstat_result = \<lparr>st_mode = 33188, st_size = 5\<rparr>,
                          link = Inl EINVAL, data = Inr ''hello''\<rparr>)" "Path ''foo.bin''"
        "\<lparr>lstat_result = \<lparr>st_mode = 33188, st_size = 5\<rparr>,
                          link = Inl EINVAL, data = Inr ''hello''\<rparr>" "''hello''"]
  by simp

end
